theory Spec2Isabelle
  imports Complex_Main "HOL-Library.Char_ord" "HOL-Library.List_Lexorder"
    "HOL-Library.Sublist" "HOL-Library.AList"
begin

section \<open>Python values used by \<open>modules/n_proxy_m_bus.py\<close>\<close>

text \<open>
  A ZeroMQ multipart message is a Python list of \<open>bytes\<close>; a \<open>bytes\<close> object and a
  \<open>str\<close> are both character lists here (a \<open>str\<close> is held as its UTF-8 encoding, so
  that comparing and sorting follow the code points).
\<close>

type_synonym bytes = string

datatype pyerr =
    IndexError | KeyError | TypeError | AttributeError | ValueError
  | UnicodeDecodeError | JSONDecodeError | OtherError string

text \<open>
  What \<open>json.loads\<close> can return. A Python float is a finite double, held as its exact
  rational value, or one of \<open>Infinity\<close>, \<open>-Infinity\<close>, \<open>NaN\<close>, which \<open>json.loads\<close>
  accepts. A dict keeps insertion order, so it is an association list.
\<close>

datatype pyfloat = Fin rat | PosInf | NegInf | NaN

datatype json =
    JNull | JBool bool | JInt int | JFloat pyfloat | JStr string
  | JArr "json list" | JObj "(string \<times> json) list"

text \<open>\<open>k in s\<close> for two strings: \<open>k\<close> occurs in \<open>s\<close> as a contiguous piece.\<close>

fun str_contains :: "string \<Rightarrow> string \<Rightarrow> bool" where
  "str_contains k [] = (k = [])"
| "str_contains k (c # cs) = (prefix k (c # cs) \<or> str_contains k cs)"

text \<open>
  \<open>k in x\<close>: key membership for a dict, element equality for a list, substring for a
  str; the other JSON values are not iterable and raise \<open>TypeError\<close>.
\<close>

fun py_contains :: "string \<Rightarrow> json \<Rightarrow> pyerr + bool" where
  "py_contains k (JObj d) = Inr (map_of d k \<noteq> None)"
| "py_contains k (JArr xs) = Inr (JStr k \<in> set xs)"
| "py_contains k (JStr s) = Inr (str_contains k s)"
| "py_contains k JNull = Inl TypeError"
| "py_contains k (JBool b) = Inl TypeError"
| "py_contains k (JInt i) = Inl TypeError"
| "py_contains k (JFloat f) = Inl TypeError"

text \<open>\<open>x[k]\<close> with a str key: only a dict accepts it.\<close>

fun py_getitem :: "json \<Rightarrow> string \<Rightarrow> pyerr + json" where
  "py_getitem (JObj d) k = (case map_of d k of None \<Rightarrow> Inl KeyError | Some v \<Rightarrow> Inr v)"
| "py_getitem JNull k = Inl TypeError"
| "py_getitem (JBool b) k = Inl TypeError"
| "py_getitem (JInt i) k = Inl TypeError"
| "py_getitem (JFloat f) k = Inl TypeError"
| "py_getitem (JStr s) k = Inl TypeError"
| "py_getitem (JArr xs) k = Inl TypeError"

text \<open>
  \<open>x[k] = v\<close> with a str key: a dict replaces the value of an existing key in place and
  appends a new key at the end.
\<close>

fun py_setitem :: "json \<Rightarrow> string \<Rightarrow> json \<Rightarrow> pyerr + json" where
  "py_setitem (JObj d) k v = Inr (JObj (AList.update k v d))"
| "py_setitem JNull k v = Inl TypeError"
| "py_setitem (JBool b) k v = Inl TypeError"
| "py_setitem (JInt i) k v = Inl TypeError"
| "py_setitem (JFloat f) k v = Inl TypeError"
| "py_setitem (JStr s) k v = Inl TypeError"
| "py_setitem (JArr xs) k v = Inl TypeError"

text \<open>\<open>x.items()\<close>: only a dict has the method.\<close>

fun py_items :: "json \<Rightarrow> pyerr + (string \<times> json) list" where
  "py_items (JObj d) = Inr d"
| "py_items JNull = Inl AttributeError"
| "py_items (JBool b) = Inl AttributeError"
| "py_items (JInt i) = Inl AttributeError"
| "py_items (JFloat f) = Inl AttributeError"
| "py_items (JStr s) = Inl AttributeError"
| "py_items (JArr xs) = Inl AttributeError"

text \<open>\<open>dict(pairs)\<close>: the pairs are inserted from left to right.\<close>

definition py_dict :: "(string \<times> json) list \<Rightarrow> (string \<times> json) list" where
  "py_dict kvs = fold (\<lambda>(k, v). AList.update k v) kvs []"

text \<open>
  \<open>x >= t\<close> for a float \<open>t\<close>: numbers compare by value (\<open>bool\<close> is a subclass of
  \<open>int\<close>), every comparison with \<open>NaN\<close> is false, other operands raise \<open>TypeError\<close>.
\<close>

fun py_ge :: "json \<Rightarrow> rat \<Rightarrow> pyerr + bool" where
  "py_ge (JInt i) t = Inr (t \<le> of_int i)"
| "py_ge (JBool b) t = Inr (t \<le> (if b then 1 else 0))"
| "py_ge (JFloat (Fin r)) t = Inr (t \<le> r)"
| "py_ge (JFloat PosInf) t = Inr True"
| "py_ge (JFloat NegInf) t = Inr False"
| "py_ge (JFloat NaN) t = Inr False"
| "py_ge JNull t = Inl TypeError"
| "py_ge (JStr s) t = Inl TypeError"
| "py_ge (JArr xs) t = Inl TypeError"
| "py_ge (JObj d) t = Inl TypeError"

text \<open>
  \<open>x < t\<close> for a float \<open>t\<close>, by the same rules. The module does not evaluate it; the
  statements below use it to say that a confidence is below the threshold.
\<close>

fun py_lt :: "json \<Rightarrow> rat \<Rightarrow> pyerr + bool" where
  "py_lt (JInt i) t = Inr (of_int i < t)"
| "py_lt (JBool b) t = Inr ((if b then 1 else 0) < t)"
| "py_lt (JFloat (Fin r)) t = Inr (r < t)"
| "py_lt (JFloat PosInf) t = Inr False"
| "py_lt (JFloat NegInf) t = Inr True"
| "py_lt (JFloat NaN) t = Inr False"
| "py_lt JNull t = Inl TypeError"
| "py_lt (JStr s) t = Inl TypeError"
| "py_lt (JArr xs) t = Inl TypeError"
| "py_lt (JObj d) t = Inl TypeError"

text \<open>
  The value of a JSON number that is finite (\<open>bool\<close> is a subclass of \<open>int\<close>). The
  module does not compute it; the statements below use it to say, without the
  comparison the module makes, that a confidence is at least the threshold.
\<close>

fun number_value :: "json \<Rightarrow> rat option" where
  "number_value (JInt i) = Some (of_int i)"
| "number_value (JBool b) = Some (if b then 1 else 0)"
| "number_value (JFloat (Fin r)) = Some r"
| "number_value (JFloat PosInf) = None"
| "number_value (JFloat NegInf) = None"
| "number_value (JFloat NaN) = None"
| "number_value JNull = None"
| "number_value (JStr s) = None"
| "number_value (JArr xs) = None"
| "number_value (JObj d) = None"

text \<open>
  The float literals of the source, as the doubles they denote: \<open>0.8\<close> is
  \<open>0x3FE999999999999A\<close>, \<open>.35\<close> is \<open>0x3FD6666666666666\<close>, \<open>.2\<close> is
  \<open>0x3FC999999999999A\<close>.
\<close>

definition confidence_threshold :: rat where
  "confidence_threshold = 3602879701896397 / 4503599627370496"

definition steep_au_r :: rat where
  "steep_au_r = 3152519739159347 / 9007199254740992"

definition steep_pose :: rat where
  "steep_pose = 3602879701896397 / 18014398509481984"

text \<open>
  A double in the binade \<open>[1/2, 1)\<close> is a multiple of \<open>2 ^ 53\<close>-ths; every other double
  is below \<open>1/2\<close> or at least \<open>1\<close>.
\<close>

definition double_near_threshold :: "rat \<Rightarrow> bool" where
  "double_near_threshold r \<longleftrightarrow>
     r < 1 / 2 \<or> 1 \<le> r \<or> (\<exists>k::int. r = of_int k / 9007199254740992)"

section \<open>The collaborators that are not part of the module\<close>

text \<open>
  Modelled from the spec: the class \<open>SmoothData\<close> of \<open>modules/smooth_data.py\<close>, which the
  module imports and which is not among the sources. The spec describes its state as a
  process-wide multiplier vector and one history buffer per stream id. The module writes
  the attribute \<open>multiplier\<close> and calls one smoothing method; the array type \<open>'a\<close> and the
  history \<open>'h\<close> stay abstract.
\<close>

record ('a, 'h) SmoothData =
  multiplier :: 'a
  history :: 'h

text \<open>
  A smoothing method, as called by the module:
  \<open>smooth_func(data, queue_no=q, window_size=w, steep=s)\<close>. It may raise, and it may
  change the object it is bound to.
\<close>

type_synonym ('a, 'h) smoother =
  "('a, 'h) SmoothData \<Rightarrow> json \<Rightarrow> nat \<Rightarrow> nat \<Rightarrow> rat \<Rightarrow> (pyerr + json) \<times> ('a, 'h) SmoothData"

text \<open>
  The library functions the module calls are parameters: \<open>bytes.decode('utf-8')\<close>,
  \<open>json.loads\<close>, \<open>json.dumps\<close>, \<open>str.encode('utf-8')\<close> (total on the ASCII text that
  \<open>json.dumps\<close> produces), \<open>numpy.array\<close>, the constructor \<open>SmoothData()\<close> and the
  lookup of a method of the new object by name.
\<close>

record ('a, 'h) lib =
  decode :: "bytes \<Rightarrow> pyerr + string"
  json_loads :: "string \<Rightarrow> pyerr + json"
  json_dumps :: "json \<Rightarrow> string"
  encode :: "string \<Rightarrow> bytes"
  np_array :: "json \<Rightarrow> pyerr + 'a"
  new_SmoothData :: "('a, 'h) SmoothData"
  getattr_smooth :: "string \<Rightarrow> ('a, 'h) smoother option"

section \<open>\<open>FACSvatarMessages.start\<close>\<close>

text \<open>
  A socket attribute is \<open>None\<close> or a socket object (which is truthy); the list of
  coroutine functions is \<open>None\<close> by default. \<open>sys.exit()\<close> leaves \<open>start\<close> before either
  mode is entered.
\<close>

datatype 'f mode = SysExit | FunctionMode "'f list" | ProxyMode

definition start :: "'s option \<Rightarrow> 's option \<Rightarrow> 'f list option \<Rightarrow> 'f mode" where
  "start pub_socket sub_socket async_func_list =
     (if pub_socket = None \<or> sub_socket = None then SysExit
      else (case async_func_list of
              None \<Rightarrow> ProxyMode
            | Some [] \<Rightarrow> ProxyMode
            | Some (f # fs) \<Rightarrow> FunctionMode (f # fs)))"

section \<open>\<open>FACSvatarMessages.pub_sub_function\<close>\<close>

text \<open>
  \<open>'confidence' not in msg[2] or msg[2]['confidence'] >= 0.8\<close> (line 127).
\<close>

definition passes_confidence :: "json \<Rightarrow> pyerr + bool" where
  "passes_confidence p =
     (case py_contains ''confidence'' p of
        Inl e \<Rightarrow> Inl e
      | Inr False \<Rightarrow> Inr True
      | Inr True \<Rightarrow>
          (case py_getitem p ''confidence'' of
             Inl e \<Rightarrow> Inl e
           | Inr c \<Rightarrow> py_ge c confidence_threshold))"

text \<open>Lines 133 to 139: the action units, sorted by key, through the smoother.\<close>

definition smooth_au_r ::
  "('a, 'h) smoother \<Rightarrow> ('a, 'h) SmoothData \<Rightarrow> json \<Rightarrow> (pyerr + json) \<times> ('a, 'h) SmoothData" where
  "smooth_au_r smooth_func sd p =
     (case py_contains ''au_r'' p of
        Inl e \<Rightarrow> (Inl e, sd)
      | Inr False \<Rightarrow> (Inr p, sd)
      | Inr True \<Rightarrow>
          (case py_getitem p ''au_r'' of
             Inl e \<Rightarrow> (Inl e, sd)
           | Inr au_r_dict \<Rightarrow>
               (case py_items au_r_dict of
                  Inl e \<Rightarrow> (Inl e, sd)
                | Inr its \<Rightarrow>
                    (case smooth_func sd (JObj (py_dict (sort_key fst its))) 0 4 steep_au_r of
                       (Inl e, sd') \<Rightarrow> (Inl e, sd')
                     | (Inr r, sd') \<Rightarrow> (py_setitem p ''au_r'' r, sd')))))"

text \<open>Lines 141 to 143: the head pose through the smoother.\<close>

definition smooth_pose ::
  "('a, 'h) smoother \<Rightarrow> ('a, 'h) SmoothData \<Rightarrow> json \<Rightarrow> (pyerr + json) \<times> ('a, 'h) SmoothData" where
  "smooth_pose smooth_func sd p =
     (case py_contains ''pose'' p of
        Inl e \<Rightarrow> (Inl e, sd)
      | Inr False \<Rightarrow> (Inr p, sd)
      | Inr True \<Rightarrow>
          (case py_getitem p ''pose'' of
             Inl e \<Rightarrow> (Inl e, sd)
           | Inr pose \<Rightarrow>
               (case smooth_func sd pose 1 4 steep_pose of
                  (Inl e, sd') \<Rightarrow> (Inl e, sd')
                | (Inr r, sd') \<Rightarrow> (py_setitem p ''pose'' r, sd'))))"

definition smooth_fields ::
  "('a, 'h) smoother \<Rightarrow> ('a, 'h) SmoothData \<Rightarrow> json \<Rightarrow> (pyerr + json) \<times> ('a, 'h) SmoothData" where
  "smooth_fields smooth_func sd p =
     (case smooth_au_r smooth_func sd p of
        (Inl e, sd1) \<Rightarrow> (Inl e, sd1)
      | (Inr p1, sd1) \<Rightarrow> smooth_pose smooth_func sd1 p1)"

text \<open>
  Lines 124 to 153, for a message whose second part is not empty: the result is an
  exception, no message (\<open>None\<close>) or the message sent.
\<close>

definition forward ::
  "('a, 'h) lib \<Rightarrow> ('a, 'h) smoother \<Rightarrow> ('a, 'h) SmoothData \<Rightarrow> bytes \<Rightarrow> bytes \<Rightarrow> bytes
     \<Rightarrow> (pyerr + bytes list option) \<times> ('a, 'h) SmoothData" where
  "forward L smooth_func sd msg0 msg1 msg2 =
     (case decode L msg2 of
        Inl e \<Rightarrow> (Inl e, sd)
      | Inr s \<Rightarrow>
     (case json_loads L s of
        Inl e \<Rightarrow> (Inl e, sd)
      | Inr p \<Rightarrow>
     (case passes_confidence p of
        Inl e \<Rightarrow> (Inl e, sd)
      | Inr False \<Rightarrow> (Inr None, sd)
      | Inr True \<Rightarrow>
     (case decode L msg0 of
        Inl e \<Rightarrow> (Inl e, sd)
      | Inr topic \<Rightarrow>
     (case (if \<not> prefix ''facsvatar'' topic then smooth_fields smooth_func sd p
            else (Inr p, sd)) of
        (Inl e, sd') \<Rightarrow> (Inl e, sd')
      | (Inr p', sd') \<Rightarrow>
          (Inr (Some [msg0, msg1, encode L (json_dumps L p')]), sd'))))))"

text \<open>
  The body of the \<open>while True\<close> loop (lines 123 to 158) for one received message.
  \<open>msg[1]\<close> and \<open>msg[2]\<close> raise \<open>IndexError\<close> on a message that is too short.
\<close>

fun pub_sub_body ::
  "('a, 'h) lib \<Rightarrow> ('a, 'h) smoother \<Rightarrow> ('a, 'h) SmoothData \<Rightarrow> bytes list
     \<Rightarrow> (pyerr + bytes list option) \<times> ('a, 'h) SmoothData" where
  "pub_sub_body L smooth_func sd [] = (Inl IndexError, sd)"
| "pub_sub_body L smooth_func sd [msg0] = (Inl IndexError, sd)"
| "pub_sub_body L smooth_func sd (msg0 # msg1 # rest) =
     (if msg1 \<noteq> [] then
        (case rest of
           [] \<Rightarrow> (Inl IndexError, sd)
         | msg2 # _ \<Rightarrow> forward L smooth_func sd msg0 msg1 msg2)
      else (Inr (Some [msg0, [], []]), sd))"

section \<open>The state shared by the two coroutines\<close>

text \<open>
  The coroutine \<open>pub_sub_function\<close> has not run yet, is in its loop, has left the loop
  through the \<open>except\<close> clause (lines 160 to 164), or has failed with the exception of
  \<open>getattr\<close> (line 97, outside the \<open>try\<close>). From its first step on, the attribute
  \<open>self.smooth_data\<close> exists and refers to the one object the smoothing method is bound
  to.
\<close>

datatype 'sd task = NotStarted | Running 'sd | Returned 'sd | Failed 'sd

record ('a, 'h) relay =
  sub_task :: "('a, 'h) SmoothData task"
  sent :: "bytes list list"
  logged :: "pyerr list"

fun smooth_data :: "'sd task \<Rightarrow> 'sd option" where
  "smooth_data NotStarted = None"
| "smooth_data (Running sd) = Some sd"
| "smooth_data (Returned sd) = Some sd"
| "smooth_data (Failed sd) = Some sd"

fun map_task :: "('sd \<Rightarrow> 'sd) \<Rightarrow> 'sd task \<Rightarrow> 'sd task" where
  "map_task f NotStarted = NotStarted"
| "map_task f (Running sd) = Running (f sd)"
| "map_task f (Returned sd) = Returned (f sd)"
| "map_task f (Failed sd) = Failed (f sd)"

text \<open>
  One turn of the loop of \<open>pub_sub_function\<close>: a message is received only while the
  coroutine is in its loop. The \<open>try\<close> statement encloses the \<open>while\<close> statement, so an
  exception is logged and the coroutine returns.
\<close>

definition pub_sub_iteration ::
  "('a, 'h) lib \<Rightarrow> ('a, 'h) smoother \<Rightarrow> ('a, 'h) relay \<Rightarrow> bytes list \<Rightarrow> ('a, 'h) relay" where
  "pub_sub_iteration L smooth_func st msg =
     (case sub_task st of
        Running sd \<Rightarrow>
          (case pub_sub_body L smooth_func sd msg of
             (Inl e, sd') \<Rightarrow> st\<lparr>sub_task := Returned sd', logged := logged st @ [e]\<rparr>
           | (Inr None, sd') \<Rightarrow> st\<lparr>sub_task := Running sd'\<rparr>
           | (Inr (Some out), sd') \<Rightarrow> st\<lparr>sub_task := Running sd', sent := sent st @ [out]\<rparr>)
      | NotStarted \<Rightarrow> st
      | Returned sd \<Rightarrow> st
      | Failed sd \<Rightarrow> st)"

definition pub_sub_loop ::
  "('a, 'h) lib \<Rightarrow> ('a, 'h) smoother \<Rightarrow> ('a, 'h) relay \<Rightarrow> bytes list list \<Rightarrow> ('a, 'h) relay" where
  "pub_sub_loop L smooth_func st msgs = fold (\<lambda>msg s. pub_sub_iteration L smooth_func s msg) msgs st"

text \<open>
  The coroutine from its start (lines 95 to 97) over the messages that arrive on the
  subscriber socket.
\<close>

definition pub_sub_function ::
  "('a, 'h) lib \<Rightarrow> string \<Rightarrow> ('a, 'h) relay \<Rightarrow> bytes list list \<Rightarrow> ('a, 'h) relay" where
  "pub_sub_function L apply_function st msgs =
     (case getattr_smooth L apply_function of
        None \<Rightarrow> st\<lparr>sub_task := Failed (new_SmoothData L)\<rparr>
      | Some smooth_func \<Rightarrow>
          pub_sub_loop L smooth_func (st\<lparr>sub_task := Running (new_SmoothData L)\<rparr>) msgs)"

section \<open>\<open>FACSvatarMessages.set_parameters\<close> and \<open>set_multiplier\<close>\<close>

text \<open>
  Lines 188 to 195. The assignment \<open>self.smooth_data.multiplier = ...\<close> reads the attribute
  \<open>self.smooth_data\<close>, which raises \<open>AttributeError\<close> while it does not exist.
\<close>

definition set_multiplier :: "('a, 'h) lib \<Rightarrow> ('a, 'h) relay \<Rightarrow> bytes \<Rightarrow> pyerr + ('a, 'h) relay" where
  "set_multiplier L st data =
     (case decode L data of
        Inl e \<Rightarrow> Inl e
      | Inr s \<Rightarrow>
     (case json_loads L s of
        Inl e \<Rightarrow> Inl e
      | Inr au_multiplier_list \<Rightarrow>
     (case np_array L au_multiplier_list of
        Inl e \<Rightarrow> Inl e
      | Inr au_multiplier_np \<Rightarrow>
     (case smooth_data (sub_task st) of
        None \<Rightarrow> Inl AttributeError
      | Some sd \<Rightarrow>
          Inr (st\<lparr>sub_task := map_task (\<lambda>sd. sd\<lparr>multiplier := au_multiplier_np\<rparr>) (sub_task st)\<rparr>)))))"

text \<open>
  Lines 172 to 177: the unpacking into three names raises \<open>ValueError\<close> unless the message
  has exactly three parts.
\<close>

fun set_parameters_body :: "('a, 'h) lib \<Rightarrow> ('a, 'h) relay \<Rightarrow> bytes list \<Rightarrow> pyerr + ('a, 'h) relay" where
  "set_parameters_body L st [id_dealer, topic, data] =
     (case decode L topic of
        Inl e \<Rightarrow> Inl e
      | Inr t \<Rightarrow> if prefix ''multiplier'' t then set_multiplier L st data else Inr st)"
| "set_parameters_body L st msg = Inl ValueError"

text \<open>
  One turn of the loop of \<open>set_parameters\<close>: the \<open>try\<close> statement is inside the \<open>while\<close>
  statement, so an exception is logged and the loop goes on.
\<close>

definition set_parameters_iteration :: "('a, 'h) lib \<Rightarrow> ('a, 'h) relay \<Rightarrow> bytes list \<Rightarrow> ('a, 'h) relay" where
  "set_parameters_iteration L st msg =
     (case set_parameters_body L st msg of
        Inl e \<Rightarrow> st\<lparr>logged := logged st @ [e]\<rparr>
      | Inr st' \<Rightarrow> st')"

definition set_parameters :: "('a, 'h) lib \<Rightarrow> ('a, 'h) relay \<Rightarrow> bytes list list \<Rightarrow> ('a, 'h) relay" where
  "set_parameters L st msgs = fold (\<lambda>msg s. set_parameters_iteration L s msg) msgs st"

section \<open>A concrete library for running the functions\<close>

text \<open>
  The theorems below hold for every library. To run the functions on concrete messages,
  the parameters are instantiated: the decoder on ASCII input (where
  \<open>bytes.decode('utf-8')\<close> returns the same characters), \<open>json.loads\<close> and \<open>json.dumps\<close>
  as tables of the texts that occur below (every other text counts as malformed), and a
  stand-in smoother with a window of one sample and the identity multiplier, which
  returns its sample and records the arguments of each call in the history.
\<close>

definition ascii_decode :: "bytes \<Rightarrow> pyerr + string" where
  "ascii_decode b =
     (if list_all (\<lambda>c. (of_char c :: nat) < 128) b then Inr b else Inl UnicodeDecodeError)"

definition text_faces :: string where
  \<open>text_faces = ''{"au_r": {"AU02": 2, "AU01": 1}, "pose": {"x": 3}, "frame": 7}''\<close>

definition items_faces :: "(string \<times> json) list" where
  "items_faces =
     [(''au_r'', JObj [(''AU02'', JInt 2), (''AU01'', JInt 1)]),
      (''pose'', JObj [(''x'', JInt 3)]),
      (''frame'', JInt 7)]"

definition text_faces_sorted :: string where
  \<open>text_faces_sorted = ''{"au_r": {"AU01": 1, "AU02": 2}, "pose": {"x": 3}, "frame": 7}''\<close>

definition items_faces_sorted :: "(string \<times> json) list" where
  "items_faces_sorted =
     [(''au_r'', JObj [(''AU01'', JInt 1), (''AU02'', JInt 2)]),
      (''pose'', JObj [(''x'', JInt 3)]),
      (''frame'', JInt 7)]"

definition text_low :: string where
  \<open>text_low = ''{"confidence": 0.5, "pose": {"x": 3}}''\<close>

definition items_low :: "(string \<times> json) list" where
  "items_low = [(''confidence'', JFloat (Fin (1 / 2))), (''pose'', JObj [(''x'', JInt 3)])]"

definition text_high :: string where
  \<open>text_high = ''{"confidence": 0.8, "pose": {"x": 3}}''\<close>

definition items_high :: "(string \<times> json) list" where
  "items_high =
     [(''confidence'', JFloat (Fin confidence_threshold)), (''pose'', JObj [(''x'', JInt 3)])]"

definition text_scalar_au_r :: string where
  \<open>text_scalar_au_r = ''{"au_r": 1}''\<close>

definition items_scalar_au_r :: "(string \<times> json) list" where
  "items_scalar_au_r = [(''au_r'', JInt 1)]"

definition text_multiplier :: string where
  "text_multiplier = ''[1.5]''"

definition value_multiplier :: json where
  "value_multiplier = JArr [JFloat (Fin (3 / 2))]"

definition table_loads :: "string \<Rightarrow> pyerr + json" where
  "table_loads s =
     (if s = text_faces then Inr (JObj items_faces)
      else if s = text_faces_sorted then Inr (JObj items_faces_sorted)
      else if s = text_low then Inr (JObj items_low)
      else if s = text_multiplier then Inr value_multiplier
      else if s = text_high then Inr (JObj items_high)
      else if s = text_scalar_au_r then Inr (JObj items_scalar_au_r)
      else Inl JSONDecodeError)"

definition table_dumps :: "json \<Rightarrow> string" where
  "table_dumps j =
     (if j = JObj items_faces then text_faces
      else if j = JObj items_faces_sorted then text_faces_sorted
      else if j = JObj items_low then text_low
      else if j = value_multiplier then text_multiplier
      else if j = JObj items_high then text_high
      else if j = JObj items_scalar_au_r then text_scalar_au_r
      else ''null'')"

type_synonym calls = "(nat \<times> nat \<times> rat) list"

definition echo_smoother :: "(json, calls) smoother" where
  "echo_smoother sd data queue_no window_size steep =
     (Inr data, sd\<lparr>history := history sd @ [(queue_no, window_size, steep)]\<rparr>)"

definition fresh_smoother :: "(json, calls) SmoothData" where
  "fresh_smoother = \<lparr>multiplier = JInt 1, history = []\<rparr>"

definition test_lib :: "(json, calls) lib" where
  "test_lib =
     \<lparr>decode = ascii_decode,
      json_loads = table_loads,
      json_dumps = table_dumps,
      encode = (\<lambda>s. s),
      np_array = Inr,
      new_SmoothData = fresh_smoother,
      getattr_smooth =
        (\<lambda>name. if name = ''trailing_moving_average'' then Some echo_smoother else None)\<rparr>"

definition fresh_relay :: "(json, calls) relay" where
  "fresh_relay = \<lparr>sub_task = NotStarted, sent = [], logged = []\<rparr>"

definition smoother_after_faces :: "(json, calls) SmoothData" where
  "smoother_after_faces =
     \<lparr>multiplier = JInt 1, history = [(0, 4, steep_au_r), (1, 4, steep_pose)]\<rparr>"

definition smoother_after_pose :: "(json, calls) SmoothData" where
  "smoother_after_pose = \<lparr>multiplier = JInt 1, history = [(1, 4, steep_pose)]\<rparr>"

definition running_relay :: "(json, calls) relay" where
  "running_relay = \<lparr>sub_task = Running fresh_smoother, sent = [], logged = []\<rparr>"

section \<open>Facts about the Python operations\<close>

lemma py_lt_not_ge: "py_lt c t = Inr True \<Longrightarrow> py_ge c t = Inr False"
  by (induction c t rule: py_lt.induct) (auto split: if_splits)

lemma number_value_ge: "number_value c = Some v \<Longrightarrow> py_ge c t = Inr (t \<le> v)"
  by (induction c rule: number_value.induct) auto

text \<open>
  On every double, being below the real number \<open>4/5\<close> and being below the double that
  the literal \<open>0.8\<close> denotes are the same.
\<close>

lemma confidence_threshold_on_doubles:
  assumes "double_near_threshold r"
  shows "(r < 4 / 5) = (r < confidence_threshold)"
proof -
  consider "r < 1 / 2" | "1 \<le> r" | k :: int where "r = of_int k / 9007199254740992"
    using assms unfolding double_near_threshold_def by blast
  then show ?thesis
  proof cases
    case 1
    then show ?thesis by (simp add: confidence_threshold_def)
  next
    case 2
    then show ?thesis by (simp add: confidence_threshold_def)
  next
    case 3
    have a: "(r < 4 / 5) = (of_int (k * 5) < (of_int 36028797018963968 :: rat))"
      unfolding 3 by (simp add: field_simps)
    have b: "(r < confidence_threshold) = (of_int k < (of_int 7205759403792794 :: rat))"
      unfolding 3 confidence_threshold_def by (simp add: field_simps)
    have "(k * 5 < 36028797018963968) = (k < 7205759403792794)" by presburger
    then show ?thesis unfolding a b of_int_less_iff .
  qed
qed

lemma update_fresh: "k \<notin> set (map fst al) \<Longrightarrow> AList.update k v al = al @ [(k, v)]"
  by (induction al) auto

lemma fold_update_distinct:
  "distinct (map fst (acc @ kvs)) \<Longrightarrow> fold (\<lambda>(k, v). AList.update k v) kvs acc = acc @ kvs"
proof (induction kvs arbitrary: acc)
  case Nil
  then show ?case by simp
next
  case (Cons kv kvs)
  obtain k v where kv: "kv = (k, v)" by (cases kv)
  from Cons.prems kv have fresh: "k \<notin> set (map fst acc)" by auto
  from Cons.prems kv have "distinct (map fst ((acc @ [(k, v)]) @ kvs))" by simp
  then have "fold (\<lambda>(k, v). AList.update k v) kvs (acc @ [(k, v)]) = (acc @ [(k, v)]) @ kvs"
    by (rule Cons.IH)
  with fresh kv show ?case by (simp add: update_fresh)
qed

lemma py_dict_distinct: "distinct (map fst kvs) \<Longrightarrow> py_dict kvs = kvs"
  using fold_update_distinct [of "[]" kvs] by (simp add: py_dict_def)

lemma fold_update_sorted:
  "sorted (map fst acc @ map fst kvs) \<Longrightarrow>
     sorted (map fst (fold (\<lambda>(k, v). AList.update k v) kvs acc))"
proof (induction kvs arbitrary: acc)
  case Nil
  then show ?case by simp
next
  case (Cons kv kvs)
  obtain k v where kv: "kv = (k, v)" by (cases kv)
  have "sorted (map fst (AList.update k v acc) @ map fst kvs)"
    using Cons.prems kv by (auto simp: update_keys sorted_append)
  then show ?case using Cons.IH kv by simp
qed

lemma py_dict_sorted: "sorted (map fst (py_dict (sort_key fst its)))"
  using fold_update_sorted [of "[]" "sort_key fst its"] by (simp add: py_dict_def)

lemma py_dict_sort_map_of:
  assumes "distinct (map fst its)"
  shows "map_of (py_dict (sort_key fst its)) = map_of its"
proof -
  have d: "distinct (map fst (sort_key fst its))"
    using assms by (simp add: distinct_map)
  have "set (sort_key fst its) = set its" by simp
  with d assms have "map_of (sort_key fst its) = map_of its"
    by (simp add: map_of_inject_set)
  with d show ?thesis by (simp add: py_dict_distinct)
qed

lemma update_present_keys:
  "map_of d k \<noteq> None \<Longrightarrow> map fst (AList.update k v d) = map fst d"
  by (simp add: update_keys map_of_eq_None_iff)

section \<open>Facts about the concrete library\<close>

lemma running_relay_task: "sub_task running_relay = Running fresh_smoother"
  by (simp add: running_relay_def)

lemma new_smoother: "new_SmoothData test_lib = fresh_smoother"
  by (simp add: test_lib_def)

lemma frame_not_empty: "''1'' \<noteq> ([] :: string)"
  by simp

lemma decode_openface: "decode test_lib ''openface'' = Inr ''openface''"
  by (simp add: test_lib_def ascii_decode_def)

lemma decode_facsvatar: "decode test_lib ''facsvatar.dnn'' = Inr ''facsvatar.dnn''"
  by (simp add: test_lib_def ascii_decode_def)

lemma decode_multiplier: "decode test_lib ''multiplier'' = Inr ''multiplier''"
  by (simp add: test_lib_def ascii_decode_def)


lemma decode_text_low: "decode test_lib text_low = Inr text_low"
  by (simp add: test_lib_def ascii_decode_def text_low_def)

lemma decode_text_faces: "decode test_lib text_faces = Inr text_faces"
  by (simp add: test_lib_def ascii_decode_def text_faces_def)

lemma decode_text_multiplier: "decode test_lib text_multiplier = Inr text_multiplier"
  by (simp add: test_lib_def ascii_decode_def text_multiplier_def)

lemma decode_not_json: "decode test_lib ''not json'' = Inr ''not json''"
  by (simp add: test_lib_def ascii_decode_def)

lemma loads_text_faces: "json_loads test_lib text_faces = Inr (JObj items_faces)"
  by (simp add: test_lib_def table_loads_def)

lemma loads_text_low: "json_loads test_lib text_low = Inr (JObj items_low)"
  by (simp add: test_lib_def table_loads_def text_low_def text_faces_def text_faces_sorted_def)

lemma loads_text_multiplier: "json_loads test_lib text_multiplier = Inr value_multiplier"
  by (simp add: test_lib_def table_loads_def text_multiplier_def text_low_def text_faces_def
      text_faces_sorted_def)

lemma loads_not_json: "json_loads test_lib ''not json'' = Inl JSONDecodeError"
  by (simp add: test_lib_def table_loads_def text_multiplier_def text_low_def text_faces_def
      text_faces_sorted_def text_high_def text_scalar_au_r_def)

lemma loads_text_high: "json_loads test_lib text_high = Inr (JObj items_high)"
  by (simp add: test_lib_def table_loads_def text_multiplier_def text_low_def text_faces_def
      text_faces_sorted_def text_high_def)

lemma loads_text_scalar_au_r:
  "json_loads test_lib text_scalar_au_r = Inr (JObj items_scalar_au_r)"
  by (simp add: test_lib_def table_loads_def text_multiplier_def text_low_def text_faces_def
      text_faces_sorted_def text_high_def text_scalar_au_r_def)

lemma decode_text_high: "decode test_lib text_high = Inr text_high"
  by (simp add: test_lib_def ascii_decode_def text_high_def)

lemma decode_text_scalar_au_r: "decode test_lib text_scalar_au_r = Inr text_scalar_au_r"
  by (simp add: test_lib_def ascii_decode_def text_scalar_au_r_def)

lemma decode_not_utf8: "decode test_lib [CHR 0xFF] = Inl UnicodeDecodeError"
  by (simp add: test_lib_def ascii_decode_def)

lemma dumps_high: "encode test_lib (json_dumps test_lib (JObj items_high)) = text_high"
  by (simp add: test_lib_def table_dumps_def items_high_def items_faces_def
      items_faces_sorted_def items_low_def value_multiplier_def confidence_threshold_def)

lemma high_confidence: "map_of items_high ''confidence'' = Some (JFloat (Fin confidence_threshold))"
  by (simp add: items_high_def)

lemma high_value: "number_value (JFloat (Fin confidence_threshold)) = Some confidence_threshold"
  by simp

lemma scalar_au_r_confidence: "map_of items_scalar_au_r ''confidence'' = None"
  by (simp add: items_scalar_au_r_def)

lemma smooth_fields_high:
  "smooth_fields echo_smoother fresh_smoother (JObj items_high)
     = (Inr (JObj items_high), smoother_after_pose)"
  by (simp add: smooth_fields_def smooth_au_r_def smooth_pose_def items_high_def
      echo_smoother_def fresh_smoother_def smoother_after_pose_def)

lemma array_multiplier: "np_array test_lib value_multiplier = Inr value_multiplier"
  by (simp add: test_lib_def)

lemma dumps_faces: "encode test_lib (json_dumps test_lib (JObj items_faces)) = text_faces"
  by (simp add: test_lib_def table_dumps_def)

lemma dumps_faces_sorted:
  "encode test_lib (json_dumps test_lib (JObj items_faces_sorted)) = text_faces_sorted"
  by (simp add: test_lib_def table_dumps_def items_faces_def items_faces_sorted_def)

lemma faces_confidence: "map_of items_faces ''confidence'' = None"
  by (simp add: items_faces_def)

lemma faces_au_r:
  "map_of items_faces ''au_r'' = Some (JObj [(''AU02'', JInt 2), (''AU01'', JInt 1)])"
  by (simp add: items_faces_def)

lemma faces_pose: "map_of items_faces ''pose'' = Some (JObj [(''x'', JInt 3)])"
  by (simp add: items_faces_def)

lemma faces_frame: "map_of items_faces ''frame'' = Some (JInt 7)"
  by (simp add: items_faces_def)

lemma faces_keys: "map fst items_faces = [''au_r'', ''pose'', ''frame'']"
  by (simp add: items_faces_def)

lemma low_confidence: "map_of items_low ''confidence'' = Some (JFloat (Fin (1 / 2)))"
  by (simp add: items_low_def)

lemma half_below_threshold: "py_lt (JFloat (Fin (1 / 2))) confidence_threshold = Inr True"
  by (simp add: confidence_threshold_def)

lemma passes_faces: "passes_confidence (JObj items_faces) = Inr True"
  by (simp add: passes_confidence_def faces_confidence)

lemma dict_au_r:
  "py_dict [(''AU01'', JInt 1), (''AU02'', JInt 2)] = [(''AU01'', JInt 1), (''AU02'', JInt 2)]"
  by (simp add: py_dict_def)

lemma smooth_faces_au_r:
  "echo_smoother fresh_smoother (JObj [(''AU01'', JInt 1), (''AU02'', JInt 2)]) 0 4 steep_au_r
     = (Inr (JObj [(''AU01'', JInt 1), (''AU02'', JInt 2)]),
        \<lparr>multiplier = JInt 1, history = [(0, 4, steep_au_r)]\<rparr>)"
  by (simp add: echo_smoother_def fresh_smoother_def)

lemma smooth_faces_au_r_call:
  "echo_smoother fresh_smoother
       (JObj (py_dict (sort_key fst [(''AU02'', JInt 2), (''AU01'', JInt 1)]))) 0 4 steep_au_r
     = (Inr (JObj [(''AU01'', JInt 1), (''AU02'', JInt 2)]),
        \<lparr>multiplier = JInt 1, history = [(0, 4, steep_au_r)]\<rparr>)"
  by (simp add: dict_au_r smooth_faces_au_r)

lemma smooth_faces_pose:
  "echo_smoother \<lparr>multiplier = JInt 1, history = [(0, 4, steep_au_r)]\<rparr>
       (JObj [(''x'', JInt 3)]) 1 4 steep_pose
     = (Inr (JObj [(''x'', JInt 3)]), smoother_after_faces)"
  by (simp add: echo_smoother_def smoother_after_faces_def)

lemma updated_faces:
  "AList.update ''pose'' (JObj [(''x'', JInt 3)])
     (AList.update ''au_r'' (JObj [(''AU01'', JInt 1), (''AU02'', JInt 2)]) items_faces)
     = items_faces_sorted"
  by (simp add: items_faces_def items_faces_sorted_def)

lemma smooth_fields_faces:
  "smooth_fields echo_smoother fresh_smoother (JObj items_faces)
     = (Inr (JObj items_faces_sorted), smoother_after_faces)"
  by (simp add: smooth_fields_def smooth_au_r_def smooth_pose_def items_faces_def
      items_faces_sorted_def py_dict_def echo_smoother_def fresh_smoother_def
      smoother_after_faces_def)

lemma body_faces:
  "pub_sub_body test_lib echo_smoother fresh_smoother [''openface'', ''1'', text_faces]
     = (Inr (Some [''openface'', ''1'', text_faces_sorted]), smoother_after_faces)"
  by (simp add: forward_def decode_text_faces loads_text_faces passes_faces decode_openface
      smooth_fields_faces dumps_faces_sorted)

section \<open>Startup\<close>

text \<open>
  C8. \<open>start\<close> exits before entering proxy mode or function mode when the publisher
  socket or the subscriber socket is not initialised; when both are, it enters the
  selected mode: function mode for a non-empty list of coroutine functions, proxy mode
  otherwise.
\<close>

theorem start_requires_both_sockets:
  "(pub_socket = None \<or> sub_socket = None \<longrightarrow>
      start pub_socket sub_socket async_func_list = SysExit) \<and>
   (pub_socket \<noteq> None \<and> sub_socket \<noteq> None \<longrightarrow>
      start pub_socket sub_socket async_func_list \<noteq> SysExit \<and>
      start pub_socket sub_socket async_func_list =
        (case async_func_list of
           None \<Rightarrow> ProxyMode
         | Some [] \<Rightarrow> ProxyMode
         | Some (f # fs) \<Rightarrow> FunctionMode (f # fs)))"
  by (auto simp: start_def split: option.splits list.splits)

theorem start_requires_both_sockets_witness:
  "start (None :: nat option) (Some 5570) (Some [''pub_sub_function'', ''set_parameters'']) = SysExit \<and>
   start (Some (5571 :: nat)) None (Some [''pub_sub_function'', ''set_parameters'']) = SysExit \<and>
   start (Some (5571 :: nat)) (Some 5570) (Some [''pub_sub_function'', ''set_parameters''])
     = FunctionMode [''pub_sub_function'', ''set_parameters''] \<and>
   start (Some (5571 :: nat)) (Some 5570) (None :: string list option) = ProxyMode"
  using start_requires_both_sockets [of "None :: nat option" "Some 5570"
      "Some [''pub_sub_function'', ''set_parameters'']"]
    start_requires_both_sockets [of "Some (5571 :: nat)" None
      "Some [''pub_sub_function'', ''set_parameters'']"]
    start_requires_both_sockets [of "Some (5571 :: nat)" "Some 5570"
      "Some [''pub_sub_function'', ''set_parameters'']"]
    start_requires_both_sockets [of "Some (5571 :: nat)" "Some 5570" "None :: string list option"]
  by simp

section \<open>The end-of-stream message\<close>

text \<open>
  C2. A received message whose second part (the frame) is empty makes the loop of
  \<open>pub_sub_function\<close> send exactly \<open>[topic, b'', b'']\<close>, whatever the parts after the
  frame hold and whatever the JSON parser would do with them: the payload is not parsed
  and the smoother is not touched.
\<close>

theorem empty_frame_sends_terminal_message:
  assumes "sub_task st = Running sd"
  shows "pub_sub_body L smooth_func sd (topic # [] # rest) = (Inr (Some [topic, [], []]), sd) \<and>
         pub_sub_iteration L smooth_func st (topic # [] # rest)
           = st\<lparr>sent := sent st @ [[topic, [], []]]\<rparr>"
  using assms by (simp add: pub_sub_iteration_def)

theorem empty_frame_sends_terminal_message_witness:
  "sub_task running_relay = Running fresh_smoother \<and>
   json_loads test_lib ''not json'' = Inl JSONDecodeError \<and>
   pub_sub_iteration test_lib echo_smoother running_relay [''openface'', [], ''not json'', ''extra'']
     = running_relay\<lparr>sent := [[''openface'', [], []]]\<rparr>"
proof -
  have "pub_sub_iteration test_lib echo_smoother running_relay [''openface'', [], ''not json'', ''extra'']
          = running_relay\<lparr>sent := sent running_relay @ [[''openface'', [], []]]\<rparr>"
    using empty_frame_sends_terminal_message [OF running_relay_task] by (rule conjunct2)
  moreover have "sent running_relay = []" by (simp add: running_relay_def)
  ultimately show ?thesis by (simp add: running_relay_task loads_not_json)
qed

section \<open>The confidence gate\<close>

lemma pub_sub_iteration_error:
  "sub_task st = Running sd \<Longrightarrow> pub_sub_body L smooth_func sd msg = (Inl e, sd') \<Longrightarrow>
     pub_sub_iteration L smooth_func st msg
       = st\<lparr>sub_task := Returned sd', logged := logged st @ [e]\<rparr>"
  by (simp add: pub_sub_iteration_def)

lemma body_not_utf8_topic:
  "pub_sub_body test_lib echo_smoother fresh_smoother [[CHR 0xFF], ''1'', text_faces]
     = (Inl UnicodeDecodeError, fresh_smoother)"
  by (simp add: forward_def decode_text_faces loads_text_faces passes_faces decode_not_utf8)

lemma body_scalar_au_r:
  "pub_sub_body test_lib echo_smoother fresh_smoother [''openface'', ''1'', text_scalar_au_r]
     = (Inl AttributeError, fresh_smoother)"
  by (simp add: forward_def decode_text_scalar_au_r loads_text_scalar_au_r decode_openface
      passes_confidence_def smooth_fields_def smooth_au_r_def items_scalar_au_r_def)

text \<open>
  C3 as stated is false in its second half: a payload without the key \<open>confidence\<close> does
  not always lead to a message. With a topic that is not UTF-8, and with an \<open>au_r\<close> that is
  not an object, the step after the gate raises; the exception is logged, the loop is
  left and nothing is sent.
\<close>

theorem confidence_absent_nothing_sent:
  "map_of items_faces ''confidence'' = None \<and>
   pub_sub_iteration test_lib echo_smoother running_relay [[CHR 0xFF], ''1'', text_faces]
     = \<lparr>sub_task = Returned fresh_smoother, sent = [], logged = [UnicodeDecodeError]\<rparr> \<and>
   map_of items_scalar_au_r ''confidence'' = None \<and>
   pub_sub_iteration test_lib echo_smoother running_relay [''openface'', ''1'', text_scalar_au_r]
     = \<lparr>sub_task = Returned fresh_smoother, sent = [], logged = [AttributeError]\<rparr>"
proof -
  have a: "pub_sub_iteration test_lib echo_smoother running_relay [[CHR 0xFF], ''1'', text_faces]
     = \<lparr>sub_task = Returned fresh_smoother, sent = [], logged = [UnicodeDecodeError]\<rparr>"
    using pub_sub_iteration_error [OF running_relay_task body_not_utf8_topic]
    by (simp add: running_relay_def)
  have b: "pub_sub_iteration test_lib echo_smoother running_relay
        [''openface'', ''1'', text_scalar_au_r]
     = \<lparr>sub_task = Returned fresh_smoother, sent = [], logged = [AttributeError]\<rparr>"
    using pub_sub_iteration_error [OF running_relay_task body_scalar_au_r]
    by (simp add: running_relay_def)
  show ?thesis by (intro conjI faces_confidence scalar_au_r_confidence a b)
qed

text \<open>
  C3, amended. For a message with a non-empty frame whose payload parses to a JSON
  object: when the object has a key \<open>confidence\<close> whose value is a number strictly below
  the threshold \<open>0.8\<close>, nothing is sent (and nothing is logged, and the smoother is not
  touched). When the key is absent, or its value is a number that is at least \<open>0.8\<close>, the
  message passes the gate: it is never dropped silently, and it is sent provided the
  topic decodes and the smoothing step returns.
\<close>

theorem confidence_gate:
  assumes "sub_task st = Running sd" and "msg1 \<noteq> []"
    and "decode L msg2 = Inr s" and "json_loads L s = Inr (JObj d)"
  shows "(\<forall>c. map_of d ''confidence'' = Some c \<and> py_lt c confidence_threshold = Inr True \<longrightarrow>
            pub_sub_body L smooth_func sd (msg0 # msg1 # msg2 # rest) = (Inr None, sd) \<and>
            pub_sub_iteration L smooth_func st (msg0 # msg1 # msg2 # rest) = st) \<and>
         (map_of d ''confidence'' = None \<or>
          (\<exists>c v. map_of d ''confidence'' = Some c \<and> number_value c = Some v \<and>
                 confidence_threshold \<le> v) \<longrightarrow>
            fst (pub_sub_body L smooth_func sd (msg0 # msg1 # msg2 # rest)) \<noteq> Inr None \<and>
            (\<forall>topic p' sd'.
               decode L msg0 = Inr topic \<and>
               (if \<not> prefix ''facsvatar'' topic then smooth_fields smooth_func sd (JObj d)
                else (Inr (JObj d), sd)) = (Inr p', sd') \<longrightarrow>
               pub_sub_iteration L smooth_func st (msg0 # msg1 # msg2 # rest)
                 = st\<lparr>sub_task := Running sd',
                       sent := sent st @ [[msg0, msg1, encode L (json_dumps L p')]]\<rparr>))"
proof (intro conjI allI impI)
  fix c
  assume c: "map_of d ''confidence'' = Some c \<and> py_lt c confidence_threshold = Inr True"
  then have "passes_confidence (JObj d) = Inr False"
    by (simp add: passes_confidence_def py_lt_not_ge)
  with assms show body: "pub_sub_body L smooth_func sd (msg0 # msg1 # msg2 # rest) = (Inr None, sd)"
    by (simp add: forward_def)
  with assms show "pub_sub_iteration L smooth_func st (msg0 # msg1 # msg2 # rest) = st"
    by (simp add: pub_sub_iteration_def)
next
  assume "map_of d ''confidence'' = None \<or>
          (\<exists>c v. map_of d ''confidence'' = Some c \<and> number_value c = Some v \<and>
                 confidence_threshold \<le> v)"
  then have pass: "passes_confidence (JObj d) = Inr True"
    by (auto simp: passes_confidence_def number_value_ge)
  with assms show "fst (pub_sub_body L smooth_func sd (msg0 # msg1 # msg2 # rest)) \<noteq> Inr None"
    by (simp add: forward_def split: sum.splits prod.splits)
  fix topic p' sd'
  assume "decode L msg0 = Inr topic \<and>
          (if \<not> prefix ''facsvatar'' topic then smooth_fields smooth_func sd (JObj d)
           else (Inr (JObj d), sd)) = (Inr p', sd')"
  with assms pass
  have "pub_sub_body L smooth_func sd (msg0 # msg1 # msg2 # rest)
          = (Inr (Some [msg0, msg1, encode L (json_dumps L p')]), sd')"
    by (simp add: forward_def)
  with assms show "pub_sub_iteration L smooth_func st (msg0 # msg1 # msg2 # rest)
      = st\<lparr>sub_task := Running sd', sent := sent st @ [[msg0, msg1, encode L (json_dumps L p')]]\<rparr>"
    by (simp add: pub_sub_iteration_def)
qed

theorem confidence_gate_witness:
  "map_of items_low ''confidence'' = Some (JFloat (Fin (1 / 2))) \<and>
   py_lt (JFloat (Fin (1 / 2))) confidence_threshold = Inr True \<and>
   pub_sub_iteration test_lib echo_smoother running_relay [''openface'', ''1'', text_low]
     = running_relay \<and>
   map_of items_faces ''confidence'' = None \<and>
   pub_sub_iteration test_lib echo_smoother running_relay [''openface'', ''1'', text_faces]
     = running_relay\<lparr>sub_task := Running smoother_after_faces,
                      sent := [[''openface'', ''1'', text_faces_sorted]]\<rparr> \<and>
   map_of items_high ''confidence'' = Some (JFloat (Fin confidence_threshold)) \<and>
   number_value (JFloat (Fin confidence_threshold)) = Some confidence_threshold \<and>
   pub_sub_iteration test_lib echo_smoother running_relay [''openface'', ''1'', text_high]
     = running_relay\<lparr>sub_task := Running smoother_after_pose,
                      sent := [[''openface'', ''1'', text_high]]\<rparr>"
proof -
  have empty: "sent running_relay = []" by (simp add: running_relay_def)
  note dropped = confidence_gate [OF running_relay_task frame_not_empty decode_text_low
      loads_text_low, of echo_smoother "''openface''" "[]", THEN conjunct1, THEN spec,
      of "JFloat (Fin (1 / 2))", THEN mp, THEN conjunct2]
  have a: "pub_sub_iteration test_lib echo_smoother running_relay [''openface'', ''1'', text_low]
             = running_relay"
    by (rule dropped) (intro conjI low_confidence half_below_threshold)
  note passed = confidence_gate [OF running_relay_task frame_not_empty decode_text_faces
      loads_text_faces, of echo_smoother "''openface''" "[]", THEN conjunct2, THEN mp,
      THEN conjunct2, THEN spec, THEN spec, THEN spec,
      of "''openface''" "JObj items_faces_sorted" smoother_after_faces, THEN mp]
  have "pub_sub_iteration test_lib echo_smoother running_relay [''openface'', ''1'', text_faces]
          = running_relay\<lparr>sub_task := Running smoother_after_faces,
               sent := sent running_relay @ [[''openface'', ''1'',
                 encode test_lib (json_dumps test_lib (JObj items_faces_sorted))]]\<rparr>"
  proof (rule passed)
    show "map_of items_faces ''confidence'' = None \<or>
      (\<exists>c v. map_of items_faces ''confidence'' = Some c \<and> number_value c = Some v \<and>
             confidence_threshold \<le> v)"
      by (simp add: faces_confidence)
    show "decode test_lib ''openface'' = Inr ''openface'' \<and>
      (if \<not> prefix ''facsvatar'' ''openface''
       then smooth_fields echo_smoother fresh_smoother (JObj items_faces)
       else (Inr (JObj items_faces), fresh_smoother))
        = (Inr (JObj items_faces_sorted), smoother_after_faces)"
      by (simp add: decode_openface smooth_fields_faces)
  qed
  with empty
  have b: "pub_sub_iteration test_lib echo_smoother running_relay [''openface'', ''1'', text_faces]
     = running_relay\<lparr>sub_task := Running smoother_after_faces,
                      sent := [[''openface'', ''1'', text_faces_sorted]]\<rparr>"
    by (simp add: dumps_faces_sorted)
  note at_threshold = confidence_gate [OF running_relay_task frame_not_empty decode_text_high
      loads_text_high, of echo_smoother "''openface''" "[]", THEN conjunct2, THEN mp,
      THEN conjunct2, THEN spec, THEN spec, THEN spec,
      of "''openface''" "JObj items_high" smoother_after_pose, THEN mp]
  have "pub_sub_iteration test_lib echo_smoother running_relay [''openface'', ''1'', text_high]
          = running_relay\<lparr>sub_task := Running smoother_after_pose,
               sent := sent running_relay @ [[''openface'', ''1'',
                 encode test_lib (json_dumps test_lib (JObj items_high))]]\<rparr>"
  proof (rule at_threshold)
    have "map_of items_high ''confidence'' = Some (JFloat (Fin confidence_threshold)) \<and>
        number_value (JFloat (Fin confidence_threshold)) = Some confidence_threshold \<and>
        confidence_threshold \<le> confidence_threshold"
      by (intro conjI high_confidence high_value order_refl)
    then show "map_of items_high ''confidence'' = None \<or>
      (\<exists>c v. map_of items_high ''confidence'' = Some c \<and> number_value c = Some v \<and>
             confidence_threshold \<le> v)"
      by blast
    show "decode test_lib ''openface'' = Inr ''openface'' \<and>
      (if \<not> prefix ''facsvatar'' ''openface''
       then smooth_fields echo_smoother fresh_smoother (JObj items_high)
       else (Inr (JObj items_high), fresh_smoother))
        = (Inr (JObj items_high), smoother_after_pose)"
      by (simp add: decode_openface smooth_fields_high)
  qed
  with empty
  have c: "pub_sub_iteration test_lib echo_smoother running_relay [''openface'', ''1'', text_high]
     = running_relay\<lparr>sub_task := Running smoother_after_pose,
                      sent := [[''openface'', ''1'', text_high]]\<rparr>"
    by (simp add: dumps_high)
  show ?thesis
    by (intro conjI low_confidence half_below_threshold faces_confidence high_confidence
        high_value a b c)
qed

section \<open>Messages of the synthesis component\<close>

text \<open>
  C6. A message with a non-empty frame that passes the confidence gate and whose topic
  starts with \<open>facsvatar\<close> is sent with the parsed payload encoded again as it is: the
  result is the same for every smoothing method, and the smoother object is returned
  unchanged.
\<close>

theorem reserved_topic_not_smoothed:
  assumes "msg1 \<noteq> []" and "decode L msg2 = Inr s" and "json_loads L s = Inr p"
    and "passes_confidence p = Inr True"
    and "decode L msg0 = Inr topic" and "prefix ''facsvatar'' topic"
  shows "pub_sub_body L smooth_func sd (msg0 # msg1 # msg2 # rest)
           = (Inr (Some [msg0, msg1, encode L (json_dumps L p)]), sd)"
  using assms by (simp add: forward_def)

theorem reserved_topic_not_smoothed_witness:
  "prefix ''facsvatar'' ''facsvatar.dnn'' \<and>
   passes_confidence (JObj items_faces) = Inr True \<and>
   pub_sub_body test_lib echo_smoother fresh_smoother [''facsvatar.dnn'', ''1'', text_faces]
     = (Inr (Some [''facsvatar.dnn'', ''1'', text_faces]), fresh_smoother)"
proof -
  have pre: "prefix ''facsvatar'' ''facsvatar.dnn''" by simp
  from reserved_topic_not_smoothed [OF frame_not_empty decode_text_faces loads_text_faces
      passes_faces decode_facsvatar pre, of echo_smoother fresh_smoother "[]"]
  have "pub_sub_body test_lib echo_smoother fresh_smoother [''facsvatar.dnn'', ''1'', text_faces]
     = (Inr (Some [''facsvatar.dnn'', ''1'', text_faces]), fresh_smoother)"
    by (simp only: dumps_faces)
  with pre passes_faces show ?thesis by (intro conjI)
qed

section \<open>Smoothing of the action units and of the head pose\<close>

lemma smooth_au_r_dict:
  assumes "smooth_au_r smooth_func sd (JObj d) = (Inr p1, sd1)"
  shows "\<exists>d1. p1 = JObj d1 \<and> map fst d1 = map fst d \<and>
              (\<forall>k. k \<noteq> ''au_r'' \<longrightarrow> map_of d1 k = map_of d k)"
  using assms
  by (auto simp: smooth_au_r_def update_present_keys update_conv'
           split: if_splits option.splits sum.splits prod.splits)

lemma smooth_pose_dict:
  assumes "smooth_pose smooth_func sd (JObj d) = (Inr p1, sd1)"
  shows "\<exists>d1. p1 = JObj d1 \<and> map fst d1 = map fst d \<and>
              (\<forall>k. k \<noteq> ''pose'' \<longrightarrow> map_of d1 k = map_of d k)"
  using assms
  by (auto simp: smooth_pose_def update_present_keys update_conv'
           split: if_splits option.splits sum.splits prod.splits)

lemma smooth_fields_dict:
  assumes "smooth_fields smooth_func sd (JObj d) = (Inr p2, sd2)"
  shows "\<exists>d2. p2 = JObj d2 \<and> map fst d2 = map fst d \<and>
              (\<forall>k. k \<noteq> ''au_r'' \<and> k \<noteq> ''pose'' \<longrightarrow> map_of d2 k = map_of d k)"
proof -
  from assms obtain p1 sd1 where
    a: "smooth_au_r smooth_func sd (JObj d) = (Inr p1, sd1)" and
    b: "smooth_pose smooth_func sd1 p1 = (Inr p2, sd2)"
    by (auto simp: smooth_fields_def split: sum.splits prod.splits)
  from smooth_au_r_dict [OF a] obtain d1 where
    d1: "p1 = JObj d1" "map fst d1 = map fst d" "\<forall>k. k \<noteq> ''au_r'' \<longrightarrow> map_of d1 k = map_of d k"
    by blast
  from b d1 have "smooth_pose smooth_func sd1 (JObj d1) = (Inr p2, sd2)" by simp
  from smooth_pose_dict [OF this] obtain d2 where
    d2: "p2 = JObj d2" "map fst d2 = map fst d1" "\<forall>k. k \<noteq> ''pose'' \<longrightarrow> map_of d2 k = map_of d1 k"
    by blast
  from d1 d2 show ?thesis by simp
qed

text \<open>
  C5. For a message with a non-empty frame that passes the confidence gate and whose
  topic does not start with \<open>facsvatar\<close>: the value of \<open>au_r\<close>, when present, is replaced by
  what the smoothing method returns for its items sorted by key, with \<open>queue_no=0\<close>,
  \<open>window_size=4\<close>, \<open>steep=.35\<close>; the value of \<open>pose\<close>, when present, by what the method
  returns for it with \<open>queue_no=1\<close>, \<open>window_size=4\<close>, \<open>steep=.2\<close> (on the smoother as the
  first call left it). Each field is treated whether or not the other is present. The
  sorted dict has its keys in ascending order and, the keys of a dict being distinct,
  holds the same value for each key.
\<close>

theorem au_r_and_pose_smoothed:
  assumes "msg1 \<noteq> []" and "decode L msg2 = Inr s" and "json_loads L s = Inr (JObj d)"
    and "passes_confidence (JObj d) = Inr True"
    and "decode L msg0 = Inr topic" and "\<not> prefix ''facsvatar'' topic"
  shows
    "(\<forall>its r1 sd1 pose r2 sd2.
        map_of d ''au_r'' = Some (JObj its) \<and>
        smooth_func sd (JObj (py_dict (sort_key fst its))) 0 4 steep_au_r = (Inr r1, sd1) \<and>
        map_of d ''pose'' = Some pose \<and>
        smooth_func sd1 pose 1 4 steep_pose = (Inr r2, sd2) \<longrightarrow>
        pub_sub_body L smooth_func sd (msg0 # msg1 # msg2 # rest)
          = (Inr (Some [msg0, msg1, encode L (json_dumps L
               (JObj (AList.update ''pose'' r2 (AList.update ''au_r'' r1 d))))]), sd2)) \<and>
     (\<forall>its r1 sd1.
        map_of d ''au_r'' = Some (JObj its) \<and>
        smooth_func sd (JObj (py_dict (sort_key fst its))) 0 4 steep_au_r = (Inr r1, sd1) \<and>
        map_of d ''pose'' = None \<longrightarrow>
        pub_sub_body L smooth_func sd (msg0 # msg1 # msg2 # rest)
          = (Inr (Some [msg0, msg1, encode L (json_dumps L
               (JObj (AList.update ''au_r'' r1 d)))]), sd1)) \<and>
     (\<forall>pose r2 sd2.
        map_of d ''au_r'' = None \<and>
        map_of d ''pose'' = Some pose \<and>
        smooth_func sd pose 1 4 steep_pose = (Inr r2, sd2) \<longrightarrow>
        pub_sub_body L smooth_func sd (msg0 # msg1 # msg2 # rest)
          = (Inr (Some [msg0, msg1, encode L (json_dumps L
               (JObj (AList.update ''pose'' r2 d)))]), sd2)) \<and>
     (map_of d ''au_r'' = None \<and> map_of d ''pose'' = None \<longrightarrow>
        pub_sub_body L smooth_func sd (msg0 # msg1 # msg2 # rest)
          = (Inr (Some [msg0, msg1, encode L (json_dumps L (JObj d))]), sd)) \<and>
     (\<forall>its. sorted (map fst (py_dict (sort_key fst its))) \<and>
        (distinct (map fst its) \<longrightarrow>
           distinct (map fst (py_dict (sort_key fst its))) \<and>
           map_of (py_dict (sort_key fst its)) = map_of its))"
proof (intro conjI allI impI)
  fix its r1 sd1 pose r2 sd2
  assume "map_of d ''au_r'' = Some (JObj its) \<and>
        smooth_func sd (JObj (py_dict (sort_key fst its))) 0 4 steep_au_r = (Inr r1, sd1) \<and>
        map_of d ''pose'' = Some pose \<and>
        smooth_func sd1 pose 1 4 steep_pose = (Inr r2, sd2)"
  with assms show "pub_sub_body L smooth_func sd (msg0 # msg1 # msg2 # rest)
          = (Inr (Some [msg0, msg1, encode L (json_dumps L
               (JObj (AList.update ''pose'' r2 (AList.update ''au_r'' r1 d))))]), sd2)"
    by (simp add: forward_def smooth_fields_def smooth_au_r_def smooth_pose_def update_conv')
next
  fix its r1 sd1
  assume "map_of d ''au_r'' = Some (JObj its) \<and>
        smooth_func sd (JObj (py_dict (sort_key fst its))) 0 4 steep_au_r = (Inr r1, sd1) \<and>
        map_of d ''pose'' = None"
  with assms show "pub_sub_body L smooth_func sd (msg0 # msg1 # msg2 # rest)
          = (Inr (Some [msg0, msg1, encode L (json_dumps L
               (JObj (AList.update ''au_r'' r1 d)))]), sd1)"
    by (simp add: forward_def smooth_fields_def smooth_au_r_def smooth_pose_def update_conv')
next
  fix pose r2 sd2
  assume "map_of d ''au_r'' = None \<and>
        map_of d ''pose'' = Some pose \<and>
        smooth_func sd pose 1 4 steep_pose = (Inr r2, sd2)"
  with assms show "pub_sub_body L smooth_func sd (msg0 # msg1 # msg2 # rest)
          = (Inr (Some [msg0, msg1, encode L (json_dumps L
               (JObj (AList.update ''pose'' r2 d)))]), sd2)"
    by (simp add: forward_def smooth_fields_def smooth_au_r_def smooth_pose_def)
next
  assume "map_of d ''au_r'' = None \<and> map_of d ''pose'' = None"
  with assms show "pub_sub_body L smooth_func sd (msg0 # msg1 # msg2 # rest)
          = (Inr (Some [msg0, msg1, encode L (json_dumps L (JObj d))]), sd)"
    by (simp add: forward_def smooth_fields_def smooth_au_r_def smooth_pose_def)
next
  fix its :: "(string \<times> json) list"
  show "sorted (map fst (py_dict (sort_key fst its)))" by (rule py_dict_sorted)
next
  fix its :: "(string \<times> json) list"
  assume "distinct (map fst its)"
  then show "distinct (map fst (py_dict (sort_key fst its)))"
    by (simp add: py_dict_distinct distinct_map)
next
  fix its :: "(string \<times> json) list"
  assume "distinct (map fst its)"
  then show "map_of (py_dict (sort_key fst its)) = map_of its" by (rule py_dict_sort_map_of)
qed

theorem au_r_and_pose_smoothed_witness:
  "\<not> prefix ''facsvatar'' ''openface'' \<and>
   map_of items_faces ''au_r'' = Some (JObj [(''AU02'', JInt 2), (''AU01'', JInt 1)]) \<and>
   map_of items_faces ''pose'' = Some (JObj [(''x'', JInt 3)]) \<and>
   pub_sub_body test_lib echo_smoother fresh_smoother [''openface'', ''1'', text_faces]
     = (Inr (Some [''openface'', ''1'', text_faces_sorted]), smoother_after_faces)"
proof -
  have pre: "\<not> prefix ''facsvatar'' ''openface''" by simp
  note both = au_r_and_pose_smoothed [OF frame_not_empty decode_text_faces loads_text_faces
      passes_faces decode_openface pre, of echo_smoother fresh_smoother "[]", THEN conjunct1,
      THEN spec, THEN spec, THEN spec, THEN spec, THEN spec, THEN spec,
      of "[(''AU02'', JInt 2), (''AU01'', JInt 1)]" "JObj [(''AU01'', JInt 1), (''AU02'', JInt 2)]"
        "\<lparr>multiplier = JInt 1, history = [(0, 4, steep_au_r)]\<rparr>" "JObj [(''x'', JInt 3)]"
        "JObj [(''x'', JInt 3)]" smoother_after_faces, THEN mp]
  have "pub_sub_body test_lib echo_smoother fresh_smoother [''openface'', ''1'', text_faces]
     = (Inr (Some [''openface'', ''1'', encode test_lib (json_dumps test_lib
          (JObj (AList.update ''pose'' (JObj [(''x'', JInt 3)])
             (AList.update ''au_r'' (JObj [(''AU01'', JInt 1), (''AU02'', JInt 2)])
                items_faces))))]), smoother_after_faces)"
    by (rule both) (intro conjI faces_au_r smooth_faces_au_r_call faces_pose smooth_faces_pose)
  then have "pub_sub_body test_lib echo_smoother fresh_smoother [''openface'', ''1'', text_faces]
     = (Inr (Some [''openface'', ''1'', text_faces_sorted]), smoother_after_faces)"
    by (simp only: updated_faces dumps_faces_sorted)
  with pre faces_au_r faces_pose show ?thesis by (intro conjI)
qed

section \<open>The other keys of the payload\<close>

text \<open>
  C9. When a message with a non-empty frame whose payload parses to a JSON object is
  sent on, the payload sent is the encoding of an object with the same keys in the same
  order, in which every key other than \<open>au_r\<close> and \<open>pose\<close> has the value it had in the
  received payload.
\<close>

theorem other_keys_pass_through:
  assumes "msg1 \<noteq> []" and "decode L msg2 = Inr s" and "json_loads L s = Inr (JObj d)"
    and "pub_sub_body L smooth_func sd (msg0 # msg1 # msg2 # rest) = (Inr (Some out), sd')"
  shows "\<exists>d'. out = [msg0, msg1, encode L (json_dumps L (JObj d'))] \<and>
               map fst d' = map fst d \<and>
               (\<forall>k. k \<noteq> ''au_r'' \<and> k \<noteq> ''pose'' \<longrightarrow> map_of d' k = map_of d k)"
proof -
  from assms obtain topic p' where
    sm: "(if \<not> prefix ''facsvatar'' topic then smooth_fields smooth_func sd (JObj d)
          else (Inr (JObj d), sd)) = (Inr p', sd')" and
    out: "out = [msg0, msg1, encode L (json_dumps L p')]"
    by (auto simp: forward_def split: sum.splits prod.splits bool.splits if_splits)
  show ?thesis
  proof (cases "prefix ''facsvatar'' topic")
    case True
    with sm out show ?thesis by auto
  next
    case False
    with sm have "smooth_fields smooth_func sd (JObj d) = (Inr p', sd')" by simp
    from smooth_fields_dict [OF this] out show ?thesis by blast
  qed
qed

theorem other_keys_pass_through_witness:
  "pub_sub_body test_lib echo_smoother fresh_smoother [''openface'', ''1'', text_faces]
     = (Inr (Some [''openface'', ''1'', text_faces_sorted]), smoother_after_faces) \<and>
   (\<exists>d'. [''openface'', ''1'', text_faces_sorted]
            = [''openface'', ''1'', encode test_lib (json_dumps test_lib (JObj d'))] \<and>
          map fst d' = [''au_r'', ''pose'', ''frame''] \<and>
          map_of d' ''frame'' = Some (JInt 7))"
proof -
  have "\<exists>d'. [''openface'', ''1'', text_faces_sorted]
            = [''openface'', ''1'', encode test_lib (json_dumps test_lib (JObj d'))] \<and>
          map fst d' = map fst items_faces \<and>
          (\<forall>k. k \<noteq> ''au_r'' \<and> k \<noteq> ''pose'' \<longrightarrow> map_of d' k = map_of items_faces k)"
    by (rule other_keys_pass_through [OF frame_not_empty decode_text_faces loads_text_faces
          body_faces])
  then obtain d' where
    out: "[''openface'', ''1'', text_faces_sorted]
            = [''openface'', ''1'', encode test_lib (json_dumps test_lib (JObj d'))]" and
    keys: "map fst d' = map fst items_faces" and
    rest: "\<forall>k. k \<noteq> ''au_r'' \<and> k \<noteq> ''pose'' \<longrightarrow> map_of d' k = map_of items_faces k"
    by (elim exE conjE)
  from rest have "''frame'' \<noteq> ''au_r'' \<and> ''frame'' \<noteq> ''pose'' \<longrightarrow>
      map_of d' ''frame'' = map_of items_faces ''frame''"
    by (rule spec)
  then have frame: "map_of d' ''frame'' = Some (JInt 7)"
    by (simp add: faces_frame)
  from keys have keys': "map fst d' = [''au_r'', ''pose'', ''frame'']"
    by (simp only: faces_keys)
  have "\<exists>d'. [''openface'', ''1'', text_faces_sorted]
            = [''openface'', ''1'', encode test_lib (json_dumps test_lib (JObj d'))] \<and>
          map fst d' = [''au_r'', ''pose'', ''frame''] \<and>
          map_of d' ''frame'' = Some (JInt 7)"
    using out keys' frame by (intro exI [of _ d'] conjI)
  with body_faces show ?thesis by (rule conjI)
qed

section \<open>The parts of the message sent\<close>

text \<open>
  What the loop body sends never depends on the parts of the received message after the
  third. A message sent in answer to an empty frame is \<open>[topic, b'', b'']\<close>; any other
  message sent is the topic and the frame as received and, as third and last part, the
  encoding of the parsed payload after the smoothing step.
\<close>

lemma outbound_has_three_parts:
  "pub_sub_body L smooth_func sd (msg0 # msg1 # msg2 # extra)
     = pub_sub_body L smooth_func sd [msg0, msg1, msg2] \<and>
   (msg1 = [] \<longrightarrow>
      pub_sub_body L smooth_func sd (msg0 # msg1 # msg2 # extra) = (Inr (Some [msg0, [], []]), sd)) \<and>
   (\<forall>out sd'. msg1 \<noteq> [] \<and>
      pub_sub_body L smooth_func sd (msg0 # msg1 # msg2 # extra) = (Inr (Some out), sd') \<longrightarrow>
      (\<exists>s p topic p'.
         decode L msg2 = Inr s \<and> json_loads L s = Inr p \<and> decode L msg0 = Inr topic \<and>
         (if \<not> prefix ''facsvatar'' topic then smooth_fields smooth_func sd p
          else (Inr p, sd)) = (Inr p', sd') \<and>
         out = [msg0, msg1, encode L (json_dumps L p')]))"
  by (auto simp: forward_def split: sum.splits prod.splits bool.splits if_splits)

text \<open>
  C4 does not hold in function mode: a fourth part of a received message is not sent
  on. Here a message of the synthesis component that carries a fourth part \<open>extra\<close> and
  passes the gate is sent as three parts, none of which is \<open>extra\<close>. The module's own
  description of the messages (lines 12 to 19, a \<open>4+ part envelope\<close> with a last part
  \<open>(data2)\<close>) and proxy mode (line 88) both carry that part.
\<close>

theorem extra_part_not_forwarded:
  "pub_sub_body test_lib echo_smoother fresh_smoother
       [''facsvatar.dnn'', ''1'', text_faces, ''extra'']
     = (Inr (Some [''facsvatar.dnn'', ''1'', text_faces]), fresh_smoother) \<and>
   ''extra'' \<notin> set [''facsvatar.dnn'', ''1'', text_faces]"
proof -
  have "pub_sub_body test_lib echo_smoother fresh_smoother
       [''facsvatar.dnn'', ''1'', text_faces, ''extra'']
     = (Inr (Some [''facsvatar.dnn'', ''1'', text_faces]), fresh_smoother)"
    by (simp add: forward_def decode_text_faces loads_text_faces passes_faces decode_facsvatar
        dumps_faces)
  moreover have "''extra'' \<notin> set [''facsvatar.dnn'', ''1'', text_faces]"
    by (simp add: text_faces_def)
  ultimately show ?thesis by (rule conjI)
qed

section \<open>Commands on the router socket\<close>

lemma set_parameters_iteration_not_started:
  "sub_task st = NotStarted \<Longrightarrow> sub_task (set_parameters_iteration L st msg) = NotStarted"
  by (cases "(L, st, msg)" rule: set_parameters_body.cases)
     (auto simp: set_parameters_iteration_def set_multiplier_def split: sum.splits)

lemma set_parameters_not_started:
  "sub_task st = NotStarted \<Longrightarrow> sub_task (set_parameters L st msgs) = NotStarted"
  unfolding set_parameters_def
  by (induction msgs arbitrary: st) (simp_all add: set_parameters_iteration_not_started)

text \<open>
  Every command received gets its turn of the loop, whatever happened in the turns
  before, and a turn that raises only adds the exception to the log.
\<close>

lemma set_parameters_snoc:
  "set_parameters L st (msgs @ [msg]) = set_parameters_iteration L (set_parameters L st msgs) msg"
  by (simp add: set_parameters_def)


lemma fresh_relay_task: "sub_task fresh_relay = NotStarted"
  by (simp add: fresh_relay_def)





text \<open>
  C10. The smoother object comes into being in the first step of \<open>pub_sub_function\<close>
  (line 95); the router loop alone never creates it. While it does not exist, a command
  whose topic starts with \<open>multiplier\<close> always ends in an exception that is logged, with
  no other change of the state: \<open>AttributeError\<close> when the data parses. When
  \<open>pub_sub_function\<close> starts afterwards, its smoother is the newly constructed one, so the
  multiplier of the command is lost.
\<close>

theorem multiplier_before_start:
  assumes "sub_task st = NotStarted" and "decode L topic = Inr t" and "prefix ''multiplier'' t"
  shows "(\<exists>e. set_parameters_iteration L st [id_dealer, topic, data]
                = st\<lparr>logged := logged st @ [e]\<rparr>) \<and>
         (\<forall>s j a. decode L data = Inr s \<and> json_loads L s = Inr j \<and> np_array L j = Inr a \<longrightarrow>
            set_parameters_iteration L st [id_dealer, topic, data]
              = st\<lparr>logged := logged st @ [AttributeError]\<rparr>) \<and>
         (\<forall>msgs. smooth_data (sub_task (set_parameters L st msgs)) = None) \<and>
         (\<forall>apply_function.
            smooth_data (sub_task (pub_sub_function L apply_function
                (set_parameters_iteration L st [id_dealer, topic, data]) []))
              = Some (new_SmoothData L))"
proof (intro conjI allI impI)
  show "\<exists>e. set_parameters_iteration L st [id_dealer, topic, data] = st\<lparr>logged := logged st @ [e]\<rparr>"
    using assms
    by (auto simp: set_parameters_iteration_def set_multiplier_def split: sum.splits)
next
  fix s j a
  assume "decode L data = Inr s \<and> json_loads L s = Inr j \<and> np_array L j = Inr a"
  with assms show "set_parameters_iteration L st [id_dealer, topic, data]
      = st\<lparr>logged := logged st @ [AttributeError]\<rparr>"
    by (simp add: set_parameters_iteration_def set_multiplier_def)
next
  fix msgs
  show "smooth_data (sub_task (set_parameters L st msgs)) = None"
    using assms(1) by (simp add: set_parameters_not_started)
next
  fix apply_function
  show "smooth_data (sub_task (pub_sub_function L apply_function
          (set_parameters_iteration L st [id_dealer, topic, data]) [])) = Some (new_SmoothData L)"
    by (simp add: pub_sub_function_def pub_sub_loop_def split: option.splits)
qed

theorem multiplier_before_start_witness:
  "sub_task fresh_relay = NotStarted \<and>
   set_parameters_iteration test_lib fresh_relay [''client1'', ''multiplier'', text_multiplier]
     = fresh_relay\<lparr>logged := [AttributeError]\<rparr> \<and>
   smooth_data (sub_task (pub_sub_function test_lib ''trailing_moving_average''
       (set_parameters_iteration test_lib fresh_relay
          [''client1'', ''multiplier'', text_multiplier]) []))
     = Some fresh_smoother"
proof -
  have pre: "prefix ''multiplier'' ''multiplier''" by simp
  note inst = multiplier_before_start [OF fresh_relay_task decode_multiplier pre,
      where data = text_multiplier and id_dealer = "''client1''"]
  note raised = inst [THEN conjunct2, THEN conjunct1, THEN spec, THEN spec, THEN spec,
      of text_multiplier value_multiplier value_multiplier, THEN mp]
  have "set_parameters_iteration test_lib fresh_relay
      [''client1'', ''multiplier'', text_multiplier]
     = fresh_relay\<lparr>logged := logged fresh_relay @ [AttributeError]\<rparr>"
    by (rule raised) (intro conjI decode_text_multiplier loads_text_multiplier array_multiplier)
  moreover have "logged fresh_relay = []" by (simp add: fresh_relay_def)
  ultimately have a: "set_parameters_iteration test_lib fresh_relay
      [''client1'', ''multiplier'', text_multiplier] = fresh_relay\<lparr>logged := [AttributeError]\<rparr>"
    by simp
  note started = inst [THEN conjunct2, THEN conjunct2, THEN conjunct2]
  from started have "smooth_data (sub_task (pub_sub_function test_lib ''trailing_moving_average''
        (set_parameters_iteration test_lib fresh_relay
           [''client1'', ''multiplier'', text_multiplier]) [])) = Some (new_SmoothData test_lib)"
    by (rule spec)
  then have b: "smooth_data (sub_task (pub_sub_function test_lib ''trailing_moving_average''
        (set_parameters_iteration test_lib fresh_relay
           [''client1'', ''multiplier'', text_multiplier]) [])) = Some fresh_smoother"
    by (simp only: new_smoother)
  show ?thesis by (intro conjI fresh_relay_task a b)
qed

section \<open>Exceptions in the two loops\<close>

lemma pub_sub_loop_not_running:
  "(\<forall>sd. sub_task st \<noteq> Running sd) \<Longrightarrow> pub_sub_loop L smooth_func st msgs = st"
  unfolding pub_sub_loop_def
  by (induction msgs) (auto simp: pub_sub_iteration_def split: task.splits)

lemma body_not_json:
  "pub_sub_body test_lib echo_smoother fresh_smoother [''openface'', ''1'', ''not json'']
     = (Inl JSONDecodeError, fresh_smoother)"
  by (simp add: forward_def decode_not_json loads_not_json)

text \<open>
  C1 does not hold for the loop of \<open>pub_sub_function\<close>: the first message whose
  processing raises ends the loop. The exception is logged, the coroutine returns, and no
  later message is received, whatever it is. (The loop of \<open>set_parameters\<close> does go on:
  see \<open>set_parameters_snoc\<close> and \<open>set_parameters_iteration_error\<close>.)
\<close>

theorem pub_sub_loop_returns_at_first_error:
  assumes "sub_task st = Running sd" and "pub_sub_body L smooth_func sd msg = (Inl e, sd')"
  shows "pub_sub_loop L smooth_func st (msg # msgs)
           = st\<lparr>sub_task := Returned sd', logged := logged st @ [e]\<rparr>"
proof -
  have "pub_sub_iteration L smooth_func st msg
          = st\<lparr>sub_task := Returned sd', logged := logged st @ [e]\<rparr>"
    using assms by (simp add: pub_sub_iteration_def)
  moreover have "pub_sub_loop L smooth_func st (msg # msgs)
      = pub_sub_loop L smooth_func (pub_sub_iteration L smooth_func st msg) msgs"
    by (simp add: pub_sub_loop_def)
  ultimately show ?thesis by (simp add: pub_sub_loop_not_running)
qed

theorem pub_sub_loop_returns_at_first_error_witness:
  "pub_sub_loop test_lib echo_smoother running_relay
       [[''openface'', ''1'', ''not json''], [''openface'', [], []]]
     = running_relay\<lparr>sub_task := Returned fresh_smoother, logged := [JSONDecodeError]\<rparr> \<and>
   pub_sub_loop test_lib echo_smoother running_relay [[''openface'', [], []]]
     = running_relay\<lparr>sent := [[''openface'', [], []]]\<rparr>"
proof -
  have "pub_sub_loop test_lib echo_smoother running_relay
       [[''openface'', ''1'', ''not json''], [''openface'', [], []]]
     = running_relay\<lparr>sub_task := Returned fresh_smoother,
                      logged := logged running_relay @ [JSONDecodeError]\<rparr>"
    by (rule pub_sub_loop_returns_at_first_error [OF running_relay_task body_not_json])
  moreover have "logged running_relay = []" by (simp add: running_relay_def)
  ultimately have a: "pub_sub_loop test_lib echo_smoother running_relay
       [[''openface'', ''1'', ''not json''], [''openface'', [], []]]
     = running_relay\<lparr>sub_task := Returned fresh_smoother, logged := [JSONDecodeError]\<rparr>"
    by simp
  have b: "pub_sub_loop test_lib echo_smoother running_relay [[''openface'', [], []]]
     = running_relay\<lparr>sent := [[''openface'', [], []]]\<rparr>"
    by (simp add: pub_sub_loop_def pub_sub_iteration_def running_relay_def)
  show ?thesis by (intro conjI a b)
qed

end
